theory Spec2Isabelle
  imports Complex_Main
begin

section \<open>Library management: the borrowing and fee engine\<close>

text \<open>
  A shallow embedding of \<^verbatim>\<open>services/library_service.py\<close>. Python values are
  modelled as follows.
  \<^item> \<^verbatim>\<open>int\<close> is \<open>int\<close>.
  \<^item> \<^verbatim>\<open>float\<close> is the rational number the float denotes (\<open>rat\<close>). The fee
    calculator only produces multiples of one half between 0 and 15, on which the
    float operations of the source (product with 0.50 and 1.00, sum, \<^verbatim>\<open>min\<close>,
    formatting with two decimals and reading back) are exact; comparisons of an
    arbitrary float with the constants 0 and 15.00 are exact as well.
  \<^item> \<^verbatim>\<open>str\<close> is \<open>string\<close>, one \<open>char\<close> per code point (code points below 256).
  \<^item> A naive \<^verbatim>\<open>datetime\<close> is its calendar date, as the proleptic Gregorian
    ordinal \<^verbatim>\<open>date.toordinal()\<close>, and its time of day in microseconds. The
    upper limit of Python's dates (year 9999) is not modelled.
  \<^item> An exception is a value \<open>Exception msg\<close>, where \<open>msg\<close> is \<^verbatim>\<open>str(e)\<close>; a
    call that may raise returns a sum, \<open>Inl\<close> for the exception.
\<close>

subsection \<open>Python values\<close>

record datetime =
  dt_date :: int
  dt_time :: nat

text \<open>\<^verbatim>\<open>dt + timedelta(days=n)\<close>.\<close>

definition add_days :: "datetime \<Rightarrow> int \<Rightarrow> datetime" where
  "add_days dt n = dt\<lparr>dt_date := dt_date dt + n\<rparr>"

datatype exn = Exception string

text \<open>
  Rounding to the nearest integer, ties to the even one: the rounding of
  \<^verbatim>\<open>f"{x:.2f}"\<close> applied to the exact value of \<open>x * 100\<close>.
\<close>

definition round_half_even :: "rat \<Rightarrow> int" where
  "round_half_even x =
     (let f = \<lfloor>x\<rfloor>; d = x - of_int f
      in if d < 1 / 2 then f
         else if 1 / 2 < d then f + 1
         else if even f then f else f + 1)"

text \<open>
  \<^verbatim>\<open>str.isspace\<close> and \<^verbatim>\<open>str.isdigit\<close> on one code point below 256, as Python
  decides them: the white space characters are 9 to 13, 28 to 32, 133 and 160; the
  digits are \<open>0\<close> to \<open>9\<close> and the superscripts 178, 179 and 185.
\<close>

definition isspace_char :: "char \<Rightarrow> bool" where
  "isspace_char c =
     (let n = (of_char c :: nat)
      in (9 \<le> n \<and> n \<le> 13) \<or> (28 \<le> n \<and> n \<le> 32) \<or> n = 133 \<or> n = 160)"

definition isdigit_char :: "char \<Rightarrow> bool" where
  "isdigit_char c =
     (let n = (of_char c :: nat)
      in (48 \<le> n \<and> n \<le> 57) \<or> n = 178 \<or> n = 179 \<or> n = 185)"

text \<open>\<^verbatim>\<open>s.strip()\<close>, \<^verbatim>\<open>s.isdigit()\<close> (false on the empty string), \<^verbatim>\<open>s.startswith(p)\<close>.\<close>

definition strip :: "string \<Rightarrow> string" where
  "strip s = rev (dropWhile isspace_char (rev (dropWhile isspace_char s)))"

definition isdigit :: "string \<Rightarrow> bool" where
  "isdigit s = (s \<noteq> [] \<and> list_all isdigit_char s)"

definition startswith :: "string \<Rightarrow> string \<Rightarrow> bool" where
  "startswith s p = (take (length p) s = p)"

text \<open>\<^verbatim>\<open>str(n)\<close> for a natural number and for an integer.\<close>

fun str_nat :: "nat \<Rightarrow> string" where
  "str_nat n =
     (if n < 10 then [''0123456789'' ! n]
      else str_nat (n div 10) @ [''0123456789'' ! (n mod 10)])"

declare str_nat.simps [simp del]

definition str_int :: "int \<Rightarrow> string" where
  "str_int i = (if i < 0 then ''-'' @ str_nat (nat (- i)) else str_nat (nat i))"


text \<open>
  The value of a date column of a row: \<^verbatim>\<open>None\<close>, a string or a \<^verbatim>\<open>datetime\<close>.
  \<open>truthy\<close> is Python's truth value of it.
\<close>

datatype pyval = PNone | PStr string | PDatetime datetime

fun truthy :: "pyval \<Rightarrow> bool" where
  "truthy PNone = False"
| "truthy (PStr s) = (s \<noteq> [])"
| "truthy (PDatetime d) = True"

text \<open>
  The functions of the \<^verbatim>\<open>datetime\<close> library that read and print dates are
  parameters of the model: \<open>strptime lib s fmt\<close> is \<open>None\<close> where
  \<^verbatim>\<open>datetime.strptime(s, fmt)\<close> raises \<^verbatim>\<open>ValueError\<close>, \<open>fromisoformat lib s\<close> is
  \<open>None\<close> where \<^verbatim>\<open>datetime.fromisoformat(s)\<close> raises, and \<open>strftime lib d fmt\<close> is
  \<^verbatim>\<open>d.strftime(fmt)\<close>.
\<close>

record pylib =
  strptime :: "string \<Rightarrow> string \<Rightarrow> datetime option"
  fromisoformat :: "string \<Rightarrow> datetime option"
  strftime :: "datetime \<Rightarrow> string \<Rightarrow> string"

subsection \<open>The persistence layer and the payment gateway\<close>

text \<open>
  The module \<^verbatim>\<open>database\<close> and the class \<^verbatim>\<open>PaymentGateway\<close> are collaborators of
  the service: the model takes them as parameters. A database is a record of its
  functions over a type \<open>'s\<close> of persisted states; a function that reads returns its
  result, a function that writes returns its success flag and the new state.
  \<open>history_query\<close> stands for the raw query of \<^verbatim>\<open>get_patron_status_report\<close>
  (\<^verbatim>\<open>get_db_connection\<close>, \<^verbatim>\<open>execute\<close>, \<^verbatim>\<open>fetchall\<close>, \<^verbatim>\<open>close\<close>), which may raise.
\<close>

record book =
  bk_id :: int
  bk_title :: string
  bk_author :: string
  bk_isbn :: string
  bk_total_copies :: int
  bk_available_copies :: int

text \<open>A row of \<^verbatim>\<open>get_patron_borrowed_books\<close> (an active borrow record of the patron).\<close>

record borrowed_row =
  row_book_id :: int
  row_title :: string
  row_due_date :: pyval

text \<open>A row of the history query.\<close>

record history_row =
  hr_book_id :: int
  hr_title :: string
  hr_borrow_date :: pyval
  hr_due_date :: pyval
  hr_return_date :: pyval

record 's database =
  get_book_by_id :: "'s \<Rightarrow> int \<Rightarrow> book option"
  get_book_by_isbn :: "'s \<Rightarrow> string \<Rightarrow> book option"
  get_patron_borrow_count :: "'s \<Rightarrow> string \<Rightarrow> int"
  get_patron_borrowed_books :: "'s \<Rightarrow> string \<Rightarrow> borrowed_row list option"
  insert_book :: "'s \<Rightarrow> string \<Rightarrow> string \<Rightarrow> string \<Rightarrow> int \<Rightarrow> int \<Rightarrow> bool \<times> 's"
  insert_borrow_record :: "'s \<Rightarrow> string \<Rightarrow> int \<Rightarrow> datetime \<Rightarrow> datetime \<Rightarrow> bool \<times> 's"
  update_book_availability :: "'s \<Rightarrow> int \<Rightarrow> int \<Rightarrow> bool \<times> 's"
  update_borrow_record_return_date :: "'s \<Rightarrow> string \<Rightarrow> int \<Rightarrow> datetime \<Rightarrow> bool \<times> 's"
  history_query :: "'s \<Rightarrow> string \<Rightarrow> exn + history_row list"

text \<open>
  A payment gateway is a record of its methods over a type \<open>'g\<close> of gateway objects:
  a call returns its result (or the exception it raises) and the object after the
  call. \<open>new_gateway\<close> is the object that \<^verbatim>\<open>PaymentGateway()\<close> constructs.
\<close>

record 'g gateway =
  new_gateway :: 'g
  process_payment ::
    "'g \<Rightarrow> string \<Rightarrow> rat \<Rightarrow> string \<Rightarrow> (exn + bool \<times> string \<times> string) \<times> 'g"
  refund_payment :: "'g \<Rightarrow> string \<Rightarrow> rat \<Rightarrow> (exn + bool \<times> string) \<times> 'g"

subsection \<open>Utilities\<close>

text \<open>
  \<^verbatim>\<open>_monetize(amount)\<close>: \<^verbatim>\<open>float(f"{float(amount):.2f}")\<close>. The argument is a
  float at every call of the module, so the conversion never raises and the
  \<^verbatim>\<open>except\<close> branch (result 0.0) is not reached.
\<close>

definition monetize :: "rat \<Rightarrow> rat" where
  "monetize amount = of_int (round_half_even (amount * 100)) / 100"

text \<open>
  \<^verbatim>\<open>_compute_fee_from_due_and_end(due_dt, end_dt)\<close>. A \<^verbatim>\<open>datetime\<close> is always
  truthy, so \<^verbatim>\<open>not due_dt\<close> holds exactly for \<^verbatim>\<open>None\<close>.
\<close>

definition compute_fee_from_due_and_end ::
  "datetime option \<Rightarrow> datetime option \<Rightarrow> rat \<times> int" where
  "compute_fee_from_due_and_end due_dt end_dt =
     (case due_dt of
        None \<Rightarrow> (0, 0)
      | Some due \<Rightarrow>
          (case end_dt of
             None \<Rightarrow> (0, 0)
           | Some en \<Rightarrow>
               (let days_overdue = dt_date en - dt_date due
                in if days_overdue \<le> 0 then (0, 0)
                   else
                     (let first_seven = min days_overdue 7;
                          remainder = max (days_overdue - 7) 0;
                          fee = of_int first_seven * (1 / 2) + of_int remainder * 1;
                          fee = min fee 15
                      in (monetize fee, days_overdue)))))"

text \<open>
  \<^verbatim>\<open>_parse_dt(val)\<close>: a \<^verbatim>\<open>datetime\<close> is returned as it is; a string is tried against
  the three formats in turn and then against \<^verbatim>\<open>fromisoformat\<close>; anything else is
  \<^verbatim>\<open>None\<close>.
\<close>

definition parse_dt :: "pylib \<Rightarrow> pyval \<Rightarrow> datetime option" where
  "parse_dt lib val =
     (case val of
        PDatetime d \<Rightarrow> Some d
      | PStr str \<Rightarrow>
          (case strptime lib str ''%Y-%m-%d %H:%M:%S'' of
             Some d \<Rightarrow> Some d
           | None \<Rightarrow>
               (case strptime lib str ''%Y-%m-%dT%H:%M:%S'' of
                  Some d \<Rightarrow> Some d
                | None \<Rightarrow>
                    (case strptime lib str ''%Y-%m-%d'' of
                       Some d \<Rightarrow> Some d
                     | None \<Rightarrow> fromisoformat lib str)))
      | PNone \<Rightarrow> None)"

text \<open>
  The guard on the patron ID, written out in four functions of the source:
  \<^verbatim>\<open>not patron_id or not patron_id.isdigit() or len(patron_id) != 6\<close>.
\<close>

definition invalid_patron_id :: "string \<Rightarrow> bool" where
  "invalid_patron_id patron_id =
     (patron_id = [] \<or> \<not> isdigit patron_id \<or> length patron_id \<noteq> 6)"

text \<open>\<^verbatim>\<open>x or []\<close> on the result of a query.\<close>

definition or_empty :: "'a list option \<Rightarrow> 'a list" where
  "or_empty x = (case x of None \<Rightarrow> [] | Some xs \<Rightarrow> xs)"

text \<open>
  \<^verbatim>\<open>due_dt = r.get('due_date')\<close> followed by
  \<^verbatim>\<open>if not isinstance(due_dt, datetime): due_dt = _parse_dt(due_dt)\<close>.
\<close>

definition due_of :: "pylib \<Rightarrow> borrowed_row \<Rightarrow> datetime option" where
  "due_of lib r =
     (case row_due_date r of
        PDatetime d \<Rightarrow> Some d
      | v \<Rightarrow> parse_dt lib v)"

text \<open>\<^verbatim>\<open>d.strftime("%Y-%m-%d") if d else None\<close>.\<close>

definition ymd_or_none :: "pylib \<Rightarrow> datetime option \<Rightarrow> string option" where
  "ymd_or_none lib d = map_option (\<lambda>x. strftime lib x ''%Y-%m-%d'') d"

subsection \<open>Catalog\<close>

text \<open>
  Every operation takes the database \<open>db\<close> and the persisted state \<open>s\<close>; an
  operation that writes returns the state it leaves with its result.
\<close>

definition add_book_to_catalog ::
  "'s database \<Rightarrow> 's \<Rightarrow> string \<Rightarrow> string \<Rightarrow> string \<Rightarrow> int \<Rightarrow> (bool \<times> string) \<times> 's" where
  \<open>add_book_to_catalog db s title author isbn total_copies =
     (if title = [] \<or> strip title = [] then
        ((False, ''Title is required.''), s)
      else if length (strip title) > 200 then
        ((False, ''Title must be less than 200 characters.''), s)
      else if author = [] \<or> strip author = [] then
        ((False, ''Author is required.''), s)
      else if length (strip author) > 100 then
        ((False, ''Author must be less than 100 characters.''), s)
      else if length isbn \<noteq> 13 then
        ((False, ''ISBN must be exactly 13 digits.''), s)
      else if total_copies \<le> 0 then
        ((False, ''Total copies must be a positive integer.''), s)
      else
        (case get_book_by_isbn db s isbn of
           Some existing \<Rightarrow> ((False, ''A book with this ISBN already exists.''), s)
         | None \<Rightarrow>
             (let (success, s') =
                    insert_book db s (strip title) (strip author) isbn total_copies total_copies
              in if success then
                   ((True, ''Book "'' @ strip title
                           @ ''" has been successfully added to the catalog.''), s')
                 else ((False, ''Database error occurred while adding the book.''), s'))))\<close>

subsection \<open>Lending\<close>

text \<open>\<open>now\<close> is the value of \<^verbatim>\<open>datetime.now()\<close> at the one place an operation reads it.\<close>

definition borrow_book_by_patron ::
  "'s database \<Rightarrow> pylib \<Rightarrow> 's \<Rightarrow> datetime \<Rightarrow> string \<Rightarrow> int \<Rightarrow> (bool \<times> string) \<times> 's" where
  \<open>borrow_book_by_patron db lib s now patron_id book_id =
     (if invalid_patron_id patron_id then
        ((False, ''Invalid patron ID. Must be exactly 6 digits.''), s)
      else
        (case get_book_by_id db s book_id of
           None \<Rightarrow> ((False, ''Book not found.''), s)
         | Some book \<Rightarrow>
             if bk_available_copies book \<le> 0 then
               ((False, ''This book is currently not available.''), s)
             else
               (let current_borrowed = get_patron_borrow_count db s patron_id
                in if current_borrowed \<ge> 5 then
                     ((False, ''You have reached the maximum borrowing limit of 5 books.''), s)
                   else
                     (let borrow_date = now;
                          due_date = add_days borrow_date 14;
                          (borrow_success, s1) =
                            insert_borrow_record db s patron_id book_id borrow_date due_date
                      in if \<not> borrow_success then
                           ((False, ''Database error occurred while creating borrow record.''), s1)
                         else
                           (let (availability_success, s2) =
                                  update_book_availability db s1 book_id (- 1)
                            in if \<not> availability_success then
                                 ((False,
                                   ''Database error occurred while updating book availability.''),
                                  s2)
                               else
                                 ((True, ''Successfully borrowed "'' @ bk_title book
                                         @ ''". Due date: ''
                                         @ strftime lib due_date ''%Y-%m-%d'' @ ''.''), s2))))))\<close>


text \<open>
  The dictionary that \<^verbatim>\<open>calculate_late_fee_for_book\<close> returns: each field is \<open>None\<close>
  where the key is absent (\<open>fi_due_date = Some None\<close> is the key present with the
  value \<^verbatim>\<open>None\<close>).
\<close>

record fee_info =
  fi_fee_amount :: "rat option"
  fi_days_overdue :: "int option"
  fi_due_date :: "string option option"
  fi_status :: "string option"

definition calculate_late_fee_for_book ::
  "'s database \<Rightarrow> pylib \<Rightarrow> 's \<Rightarrow> datetime \<Rightarrow> string \<Rightarrow> int \<Rightarrow> fee_info" where
  "calculate_late_fee_for_book db lib s now patron_id book_id =
     (let current = or_empty (get_patron_borrowed_books db s patron_id)
      in case find (\<lambda>r. row_book_id r = book_id) current of
           None \<Rightarrow>
             \<lparr>fi_fee_amount = Some 0, fi_days_overdue = Some 0, fi_due_date = None,
              fi_status = Some ''not_found''\<rparr>
         | Some active \<Rightarrow>
             (let due_dt = due_of lib active;
                  (fee_amt, days_overdue) = compute_fee_from_due_and_end due_dt (Some now);
                  status = (if days_overdue > 0 then ''ok'' else ''not_overdue'')
              in \<lparr>fi_fee_amount = Some (monetize fee_amt),
                  fi_days_overdue = Some days_overdue,
                  fi_due_date = Some (ymd_or_none lib due_dt),
                  fi_status = Some status\<rparr>))"

subsection \<open>Patron status report\<close>

record current_borrow =
  cb_book_id :: int
  cb_title :: string
  cb_due_date :: "string option"
  cb_days_overdue :: int
  cb_late_fee :: rat

record history_entry =
  he_book_id :: int
  he_title :: string
  he_borrow_date :: "string option"
  he_due_date :: "string option"
  he_return_date :: "string option"

record report =
  rp_patron_id :: string
  rp_current_borrows :: "current_borrow list"
  rp_current_borrow_count :: nat
  rp_total_late_fees :: rat
  rp_history :: "history_entry list"
  rp_status :: string

text \<open>
  The loop over the current borrows. It reads the clock once for each row: \<open>now k\<close>
  is the value of the \<open>k\<close>-th \<^verbatim>\<open>datetime.now()\<close> of the call. The accumulator is
  \<^verbatim>\<open>total_fees\<close> and \<^verbatim>\<open>report['current_borrows']\<close>.
\<close>

fun current_borrows_loop ::
  "pylib \<Rightarrow> (nat \<Rightarrow> datetime) \<Rightarrow> nat \<Rightarrow> borrowed_row list \<Rightarrow>
   rat \<times> current_borrow list \<Rightarrow> rat \<times> current_borrow list" where
  "current_borrows_loop lib now k [] acc = acc"
| "current_borrows_loop lib now k (r # rs) (total_fees, borrows) =
     (let due_dt = due_of lib r;
          (fee_amt, days_overdue) = compute_fee_from_due_and_end due_dt (Some (now k))
      in current_borrows_loop lib now (Suc k) rs
           (total_fees + fee_amt,
            borrows @ [\<lparr>cb_book_id = row_book_id r, cb_title = row_title r,
                        cb_due_date = ymd_or_none lib due_dt,
                        cb_days_overdue = days_overdue,
                        cb_late_fee = monetize fee_amt\<rparr>]))"

text \<open>The body of the loop over the rows of the history query.\<close>

definition history_entry_of :: "pylib \<Rightarrow> history_row \<Rightarrow> history_entry" where
  "history_entry_of lib row =
     (let bd = parse_dt lib (hr_borrow_date row);
          dd = parse_dt lib (hr_due_date row);
          rd = (if truthy (hr_return_date row) then parse_dt lib (hr_return_date row)
                else None)
      in \<lparr>he_book_id = hr_book_id row, he_title = hr_title row,
          he_borrow_date = ymd_or_none lib bd,
          he_due_date = ymd_or_none lib dd,
          he_return_date = ymd_or_none lib rd\<rparr>)"

definition get_patron_status_report ::
  "'s database \<Rightarrow> pylib \<Rightarrow> 's \<Rightarrow> (nat \<Rightarrow> datetime) \<Rightarrow> string \<Rightarrow> report" where
  "get_patron_status_report db lib s now patron_id =
     (let report = \<lparr>rp_patron_id = patron_id, rp_current_borrows = [],
                     rp_current_borrow_count = 0, rp_total_late_fees = 0,
                     rp_history = [], rp_status = ''ok''\<rparr>
      in if invalid_patron_id patron_id then report\<lparr>rp_status := ''invalid_patron_id''\<rparr>
         else
           (let current = or_empty (get_patron_borrowed_books db s patron_id);
                (total_fees, borrows) = current_borrows_loop lib now 0 current (0, []);
                report = report\<lparr>rp_current_borrows := borrows\<rparr>;
                report = report\<lparr>rp_current_borrow_count :=
                                  length (rp_current_borrows report)\<rparr>;
                report = report\<lparr>rp_total_late_fees := monetize total_fees\<rparr>
            in case history_query db s patron_id of
                 Inr rows \<Rightarrow> report\<lparr>rp_history := map (history_entry_of lib) rows\<rparr>
               | Inl e \<Rightarrow> report\<lparr>rp_history := []\<rparr>))"

subsection \<open>Payment settlement\<close>

text \<open>
  \<open>payment_gateway\<close> is the optional argument of the source (\<open>None\<close> is its default);
  the result carries the gateway object after the call, which is the argument itself
  where the gateway is not reached.

  \<open>pay_late_fees_from\<close> is the body of \<^verbatim>\<open>pay_late_fees\<close> after the line
  \<^verbatim>\<open>fee_info = calculate_late_fee_for_book(patron_id, book_id)\<close>.
  \<^verbatim>\<open>not fee_info\<close> is the dictionary without any key.
\<close>

definition pay_late_fees_from ::
  "'g gateway \<Rightarrow> 's database \<Rightarrow> 's \<Rightarrow> fee_info \<Rightarrow> string \<Rightarrow> int \<Rightarrow> 'g option \<Rightarrow>
   (bool \<times> string \<times> string option) \<times> 'g option" where
  "pay_late_fees_from gw db s fee_info patron_id book_id payment_gateway =
     (if (fi_fee_amount fee_info = None \<and> fi_days_overdue fee_info = None
          \<and> fi_due_date fee_info = None \<and> fi_status fee_info = None)
         \<or> fi_fee_amount fee_info = None then
        ((False, ''Unable to calculate late fees.'', None), payment_gateway)
      else
        (let fee_amount = (case fi_fee_amount fee_info of Some a \<Rightarrow> a | None \<Rightarrow> 0)
         in if fee_amount \<le> 0 then
              ((False, ''No late fees to pay for this book.'', None), payment_gateway)
            else
              (case get_book_by_id db s book_id of
                 None \<Rightarrow> ((False, ''Book not found.'', None), payment_gateway)
               | Some book \<Rightarrow>
                   (let g = (case payment_gateway of None \<Rightarrow> new_gateway gw | Some g \<Rightarrow> g)
                    in case process_payment gw g patron_id fee_amount
                              (''Late fees for '' @ [CHR 0x27] @ bk_title book @ [CHR 0x27]) of
                         (Inr (success, transaction_id, message), g') \<Rightarrow>
                           if success then
                             ((True, ''Payment successful! '' @ message, Some transaction_id),
                              Some g')
                           else ((False, ''Payment failed: '' @ message, None), Some g')
                       | (Inl (Exception e), g') \<Rightarrow>
                           ((False, ''Payment processing error: '' @ e, None), Some g')))))"

definition pay_late_fees ::
  "'g gateway \<Rightarrow> 's database \<Rightarrow> pylib \<Rightarrow> 's \<Rightarrow> datetime \<Rightarrow> string \<Rightarrow> int \<Rightarrow> 'g option \<Rightarrow>
   (bool \<times> string \<times> string option) \<times> 'g option" where
  "pay_late_fees gw db lib s now patron_id book_id payment_gateway =
     (if invalid_patron_id patron_id then
        ((False, ''Invalid patron ID. Must be exactly 6 digits.'', None), payment_gateway)
      else
        (let fee_info = calculate_late_fee_for_book db lib s now patron_id book_id
         in pay_late_fees_from gw db s fee_info patron_id book_id payment_gateway))"

definition refund_late_fee_payment ::
  "'g gateway \<Rightarrow> string \<Rightarrow> rat \<Rightarrow> 'g option \<Rightarrow> (bool \<times> string) \<times> 'g option" where
  "refund_late_fee_payment gw transaction_id amount payment_gateway =
     (if transaction_id = [] \<or> \<not> startswith transaction_id ''txn_'' then
        ((False, ''Invalid transaction ID.''), payment_gateway)
      else if amount \<le> 0 then
        ((False, ''Refund amount must be greater than 0.''), payment_gateway)
      else if amount > 15 then
        ((False, ''Refund amount exceeds maximum late fee.''), payment_gateway)
      else
        (let g = (case payment_gateway of None \<Rightarrow> new_gateway gw | Some g \<Rightarrow> g)
         in case refund_payment gw g transaction_id amount of
              (Inr (success, message), g') \<Rightarrow>
                if success then ((True, message), Some g')
                else ((False, ''Refund failed: '' @ message), Some g')
            | (Inl (Exception e), g') \<Rightarrow>
                ((False, ''Refund processing error: '' @ e), Some g')))"

subsection \<open>Reference collaborators\<close>

text \<open>
  Modelled from the spec: the module \<^verbatim>\<open>database\<close> is not part of the sources. This
  in-memory database follows the persistence contract of the specification: books
  and borrow records keyed by identifiers, a record being active while its return
  date is unset, availability adjusted by a delta, and the history of a patron joined
  with the book titles, newest borrow first. Its writes always succeed.
\<close>

record borrow_record =
  br_patron_id :: string
  br_book_id :: int
  br_borrow_date :: datetime
  br_due_date :: datetime
  br_return_date :: "datetime option"

record mem_state =
  ms_books :: "book list"
  ms_records :: "borrow_record list"

definition is_active :: "string \<Rightarrow> borrow_record \<Rightarrow> bool" where
  "is_active p r = (br_patron_id r = p \<and> br_return_date r = None)"

definition title_of :: "mem_state \<Rightarrow> int \<Rightarrow> string" where
  "title_of s i = (case find (\<lambda>b. bk_id b = i) (ms_books s) of Some b \<Rightarrow> bk_title b | None \<Rightarrow> [])"

definition mem_history :: "mem_state \<Rightarrow> string \<Rightarrow> history_row list" where
  "mem_history s p =
     map (\<lambda>r. \<lparr>hr_book_id = br_book_id r, hr_title = title_of s (br_book_id r),
                hr_borrow_date = PDatetime (br_borrow_date r),
                hr_due_date = PDatetime (br_due_date r),
                hr_return_date =
                  (case br_return_date r of None \<Rightarrow> PNone | Some d \<Rightarrow> PDatetime d)\<rparr>)
       (sort_key (\<lambda>r. - (dt_date (br_borrow_date r) * 86400000000
                           + int (dt_time (br_borrow_date r))))
          (filter (\<lambda>r. br_patron_id r = p
                        \<and> find (\<lambda>b. bk_id b = br_book_id r) (ms_books s) \<noteq> None)
             (ms_records s)))"

definition mem_db :: "mem_state database" where
  "mem_db =
     \<lparr>get_book_by_id = (\<lambda>s i. find (\<lambda>b. bk_id b = i) (ms_books s)),
      get_book_by_isbn = (\<lambda>s i. find (\<lambda>b. bk_isbn b = i) (ms_books s)),
      get_patron_borrow_count = (\<lambda>s p. int (length (filter (is_active p) (ms_records s)))),
      get_patron_borrowed_books =
        (\<lambda>s p. Some (map (\<lambda>r. \<lparr>row_book_id = br_book_id r,
                                   row_title = title_of s (br_book_id r),
                                   row_due_date = PDatetime (br_due_date r)\<rparr>)
                         (filter (is_active p) (ms_records s)))),
      insert_book =
        (\<lambda>s t a i total available.
           (True, s\<lparr>ms_books := ms_books s
                       @ [\<lparr>bk_id = int (length (ms_books s)) + 1, bk_title = t,
                            bk_author = a, bk_isbn = i, bk_total_copies = total,
                            bk_available_copies = available\<rparr>]\<rparr>)),
      insert_borrow_record =
        (\<lambda>s p b borrowed due.
           (True, s\<lparr>ms_records := ms_records s
                       @ [\<lparr>br_patron_id = p, br_book_id = b, br_borrow_date = borrowed,
                            br_due_date = due, br_return_date = None\<rparr>]\<rparr>)),
      update_book_availability =
        (\<lambda>s i delta.
           (True, s\<lparr>ms_books :=
                       map (\<lambda>b. if bk_id b = i
                                 then b\<lparr>bk_available_copies := bk_available_copies b + delta\<rparr>
                                 else b) (ms_books s)\<rparr>)),
      update_borrow_record_return_date =
        (\<lambda>s p b returned.
           (True, s\<lparr>ms_records :=
                       map (\<lambda>r. if is_active p r \<and> br_book_id r = b
                                 then r\<lparr>br_return_date := Some returned\<rparr>
                                 else r) (ms_records s)\<rparr>)),
      history_query = (\<lambda>s p. Inr (mem_history s p))\<rparr>"

text \<open>
  A gateway in the manner of the mocks of the test suite: each method returns a
  fixed outcome (a result or an exception) and the object is the list of the calls
  it has received.
\<close>

datatype gateway_call = ProcessPayment string rat string | RefundPayment string rat

definition mock_gateway ::
  "(exn + bool \<times> string \<times> string) \<Rightarrow> (exn + bool \<times> string) \<Rightarrow> gateway_call list gateway" where
  "mock_gateway pay_outcome refund_outcome =
     \<lparr>new_gateway = [],
      process_payment = (\<lambda>g p a d. (pay_outcome, g @ [ProcessPayment p a d])),
      refund_payment = (\<lambda>g t a. (refund_outcome, g @ [RefundPayment t a]))\<rparr>"

text \<open>
  A date library for the examples: it prints a date as year, month and day from
  its ordinal, by the algorithm of CPython's \<^verbatim>\<open>_ord2ymd\<close>, and reads no string.
\<close>

definition days_before_month :: "int \<Rightarrow> int" where
  "days_before_month m = [0, 0, 31, 59, 90, 120, 151, 181, 212, 243, 273, 304, 334] ! nat m"

definition days_in_month :: "int \<Rightarrow> int" where
  "days_in_month m = [0, 31, 28, 31, 30, 31, 30, 31, 31, 30, 31, 30, 31] ! nat m"

definition ord2ymd :: "int \<Rightarrow> int \<times> int \<times> int" where
  "ord2ymd ordinal =
     (let n = ordinal - 1;
          n400 = n div 146097; n = n mod 146097;
          year = n400 * 400 + 1;
          n100 = n div 36524; n = n mod 36524;
          n4 = n div 1461; n = n mod 1461;
          n1 = n div 365; n = n mod 365;
          year = year + n100 * 100 + n4 * 4 + n1
      in if n1 = 4 \<or> n100 = 4 then (year - 1, 12, 31)
         else
           (let leapyear = (n1 = 3 \<and> (n4 \<noteq> 24 \<or> n100 = 3));
                month = (n + 50) div 32;
                preceding = days_before_month month
                            + (if month > 2 \<and> leapyear then 1 else 0)
            in if preceding > n then
                 (let month = month - 1;
                      preceding = preceding
                                  - (days_in_month month
                                     + (if month = 2 \<and> leapyear then 1 else 0))
                  in (year, month, n - preceding + 1))
               else (year, month, n - preceding + 1)))"

definition zero_pad :: "nat \<Rightarrow> string \<Rightarrow> string" where
  "zero_pad w str = replicate (w - length str) (CHR ''0'') @ str"

definition format_ymd :: "datetime \<Rightarrow> string" where
  "format_ymd d =
     (case ord2ymd (dt_date d) of
        (y, m, dd) \<Rightarrow> zero_pad 4 (str_int y) @ ''-'' @ zero_pad 2 (str_int m)
                      @ ''-'' @ zero_pad 2 (str_int dd))"

definition example_lib :: pylib where
  "example_lib =
     \<lparr>strptime = (\<lambda>str fmt. None),
      fromisoformat = (\<lambda>str. None),
      strftime = (\<lambda>d fmt. if fmt = ''%Y-%m-%d'' then format_ymd d else [])\<rparr>"

text \<open>
  A patron ID of exactly six digits, in the words of the specification: six
  characters, each one of the decimal digits \<open>0\<close> to \<open>9\<close>.
\<close>

definition decimal_digit :: "char \<Rightarrow> bool" where
  "decimal_digit c = (48 \<le> (of_char c :: nat) \<and> (of_char c :: nat) \<le> 57)"

definition six_digits :: "string \<Rightarrow> bool" where
  "six_digits str = (length str = 6 \<and> list_all decimal_digit str)"

subsection \<open>Example data\<close>

text \<open>
  One book, of which two of three copies are available, and the borrow records of
  patron 123456 for it: \<open>borrowed_on d\<close> is borrowed on the day \<open>d\<close> and due
  fourteen days later. \<open>db_down\<close> is the in-memory database whose history query
  raises.
\<close>

definition example_book :: book where
  "example_book =
     \<lparr>bk_id = 1, bk_title = ''1984'', bk_author = ''George Orwell'',
      bk_isbn = ''9780451524935'', bk_total_copies = 3, bk_available_copies = 2\<rparr>"

definition borrowed_on :: "int \<Rightarrow> borrow_record" where
  "borrowed_on d =
     \<lparr>br_patron_id = ''123456'', br_book_id = 1,
      br_borrow_date = \<lparr>dt_date = d, dt_time = 0\<rparr>,
      br_due_date = \<lparr>dt_date = d + 14, dt_time = 0\<rparr>, br_return_date = None\<rparr>"

definition example_state :: "borrow_record list \<Rightarrow> mem_state" where
  "example_state rs = \<lparr>ms_books = [example_book], ms_records = rs\<rparr>"

definition db_down :: "mem_state database" where
  "db_down = mem_db\<lparr>history_query := \<lambda>s p. Inl (Exception ''db down'')\<rparr>"

text \<open>
  The patron ID \<^verbatim>\<open>12345\<close> followed by the superscript two (code point 178), and a
  borrow record of that patron.
\<close>

definition superscript_id :: string where
  "superscript_id = ''12345'' @ [CHR 0xB2]"

definition superscript_borrow :: borrow_record where
  "superscript_borrow = (borrowed_on 738872)\<lparr>br_patron_id := superscript_id\<rparr>"

text \<open>The fee formula in the words of the specification, for a number of overdue days.\<close>

definition spec_fee :: "int \<Rightarrow> rat" where
  "spec_fee days =
     min (1 / 2 * of_int (min days 7) + 1 * of_int (max (days - 7) 0)) 15"

section \<open>Properties\<close>

subsection \<open>Fee calculator\<close>

lemma round_half_even_of_int: "round_half_even (of_int n) = n"
  by (simp add: round_half_even_def)

lemma monetize_cents: "monetize (of_int n / 100) = of_int n / 100"
  by (simp add: monetize_def round_half_even_of_int)

lemma monetize_halves: "monetize (of_int n / 2) = of_int n / 2"
proof -
  have "(of_int n / 2 :: rat) = of_int (50 * n) / 100" by simp
  then show ?thesis using monetize_cents [of "50 * n"] by simp
qed

lemma spec_fee_halves: "\<exists>n. spec_fee days = of_int n / 2"
proof (cases "1 / 2 * of_int (min days 7) + 1 * of_int (max (days - 7) 0) \<le> (15 :: rat)")
  case True
  have "(1 / 2 * of_int (min days 7) + 1 * of_int (max (days - 7) 0) :: rat)
        = of_int (min days 7 + 2 * max (days - 7) 0) / 2"
    by simp
  with True show ?thesis unfolding spec_fee_def by (metis min.absorb1)
next
  case False
  then have "spec_fee days = of_int 30 / 2" by (simp add: spec_fee_def)
  then show ?thesis by blast
qed

lemma monetize_spec_fee: "monetize (spec_fee days) = spec_fee days"
proof -
  obtain n where "spec_fee days = of_int n / 2"
    using spec_fee_halves [of days] by blast
  then show ?thesis by (simp only: monetize_halves)
qed

lemma compute_fee_overdue:
  "dt_date due < dt_date en \<Longrightarrow>
   compute_fee_from_due_and_end (Some due) (Some en) =
     (spec_fee (dt_date en - dt_date due), dt_date en - dt_date due)"
proof -
  assume a: "dt_date due < dt_date en"
  have "compute_fee_from_due_and_end (Some due) (Some en) =
        (monetize (spec_fee (dt_date en - dt_date due)), dt_date en - dt_date due)"
    using a by (simp add: compute_fee_from_due_and_end_def spec_fee_def Let_def mult.commute)
  then show ?thesis by (simp add: monetize_spec_fee)
qed

lemma compute_fee_not_overdue:
  "dt_date en \<le> dt_date due \<Longrightarrow>
   compute_fee_from_due_and_end (Some due) (Some en) = (0, 0)"
  by (simp add: compute_fee_from_due_and_end_def)

lemma spec_fee_bounds: "0 < days \<Longrightarrow> 0 < spec_fee days \<and> spec_fee days \<le> 15"
  by (auto simp: spec_fee_def min_def max_def)

lemma spec_fee_mono: "d \<le> d' \<Longrightarrow> spec_fee d \<le> spec_fee d'"
  by (auto simp: spec_fee_def min_def max_def)

text \<open>
  C1. For present timestamps \<open>due\<close> and \<open>now\<close>, the fee calculator returns \<open>(0, 0)\<close>
  when the calendar date of \<open>now\<close> is not after the calendar date of \<open>due\<close>;
  otherwise it returns the difference of the two dates in days and the fee
  \<open>min (0.50 * min days 7 + 1.00 * max (days - 7) 0) 15\<close> rounded to two decimals
  (the rounding leaves that amount as it is). If a timestamp is absent the result
  is \<open>(0, 0)\<close>.
\<close>

theorem fee_calculator_result:
  "compute_fee_from_due_and_end None end_dt = (0, 0)
   \<and> compute_fee_from_due_and_end due_dt None = (0, 0)
   \<and> (dt_date now \<le> dt_date due \<longrightarrow>
        compute_fee_from_due_and_end (Some due) (Some now) = (0, 0))
   \<and> (dt_date due < dt_date now \<longrightarrow>
        compute_fee_from_due_and_end (Some due) (Some now)
          = (monetize (spec_fee (dt_date now - dt_date due)), dt_date now - dt_date due)
        \<and> monetize (spec_fee (dt_date now - dt_date due))
          = spec_fee (dt_date now - dt_date due))"
proof -
  have absent_due: "compute_fee_from_due_and_end None end_dt = (0, 0)"
    by (simp add: compute_fee_from_due_and_end_def)
  have absent_end: "compute_fee_from_due_and_end due_dt None = (0, 0)"
    by (simp add: compute_fee_from_due_and_end_def split: option.split)
  show ?thesis
    using absent_due absent_end compute_fee_not_overdue [of now due]
      compute_fee_overdue [of due now] monetize_spec_fee [of "dt_date now - dt_date due"]
    by simp
qed

text \<open>
  Due on 2024-01-01 (ordinal 738886): returned four days later the fee is 2.00,
  ten days later 6.50, thirty days later 15.00, and on the due date itself 0.
\<close>

theorem fee_calculator_result_witness:
  "compute_fee_from_due_and_end (Some \<lparr>dt_date = 738886, dt_time = 0\<rparr>)
     (Some \<lparr>dt_date = 738890, dt_time = 3600000000\<rparr>) = (2, 4)
   \<and> compute_fee_from_due_and_end (Some \<lparr>dt_date = 738886, dt_time = 0\<rparr>)
     (Some \<lparr>dt_date = 738896, dt_time = 0\<rparr>) = (13 / 2, 10)
   \<and> compute_fee_from_due_and_end (Some \<lparr>dt_date = 738886, dt_time = 0\<rparr>)
     (Some \<lparr>dt_date = 738916, dt_time = 0\<rparr>) = (15, 30)
   \<and> compute_fee_from_due_and_end (Some \<lparr>dt_date = 738886, dt_time = 0\<rparr>)
     (Some \<lparr>dt_date = 738886, dt_time = 86399999999\<rparr>) = (0, 0)"
  using
    fee_calculator_result [of None None "\<lparr>dt_date = 738890, dt_time = 3600000000\<rparr>"
      "\<lparr>dt_date = 738886, dt_time = 0\<rparr>"]
    fee_calculator_result [of None None "\<lparr>dt_date = 738896, dt_time = 0\<rparr>"
      "\<lparr>dt_date = 738886, dt_time = 0\<rparr>"]
    fee_calculator_result [of None None "\<lparr>dt_date = 738916, dt_time = 0\<rparr>"
      "\<lparr>dt_date = 738886, dt_time = 0\<rparr>"]
    fee_calculator_result [of None None "\<lparr>dt_date = 738886, dt_time = 86399999999\<rparr>"
      "\<lparr>dt_date = 738886, dt_time = 0\<rparr>"]
  by (simp add: spec_fee_def)

text \<open>
  C2. For every pair of present timestamps the fee lies between 0 and 15; the fee
  does not decrease when the number of overdue days grows (read as the difference
  of the calendar dates, or as the day count the calculator returns); and the fee
  is 0 whenever the number of overdue days is at most 0.
\<close>

theorem fee_bounded_monotone:
  "0 \<le> fst (compute_fee_from_due_and_end (Some due) (Some now))
   \<and> fst (compute_fee_from_due_and_end (Some due) (Some now)) \<le> 15
   \<and> (dt_date now - dt_date due \<le> dt_date now' - dt_date due' \<longrightarrow>
        fst (compute_fee_from_due_and_end (Some due) (Some now))
          \<le> fst (compute_fee_from_due_and_end (Some due') (Some now')))
   \<and> (snd (compute_fee_from_due_and_end (Some due) (Some now))
          \<le> snd (compute_fee_from_due_and_end (Some due') (Some now')) \<longrightarrow>
        fst (compute_fee_from_due_and_end (Some due) (Some now))
          \<le> fst (compute_fee_from_due_and_end (Some due') (Some now')))
   \<and> (dt_date now - dt_date due \<le> 0 \<longrightarrow>
        fst (compute_fee_from_due_and_end (Some due) (Some now)) = 0)"
proof -
  let ?d = "dt_date now - dt_date due" and ?d' = "dt_date now' - dt_date due'"
  have fee: "fst (compute_fee_from_due_and_end (Some due) (Some now))
             = (if 0 < ?d then spec_fee ?d else 0)"
    using compute_fee_overdue [of due now] compute_fee_not_overdue [of now due] by simp
  have fee': "fst (compute_fee_from_due_and_end (Some due') (Some now'))
              = (if 0 < ?d' then spec_fee ?d' else 0)"
    using compute_fee_overdue [of due' now'] compute_fee_not_overdue [of now' due'] by simp
  have days: "snd (compute_fee_from_due_and_end (Some due) (Some now))
              = (if 0 < ?d then ?d else 0)"
    using compute_fee_overdue [of due now] compute_fee_not_overdue [of now due] by simp
  have days': "snd (compute_fee_from_due_and_end (Some due') (Some now'))
               = (if 0 < ?d' then ?d' else 0)"
    using compute_fee_overdue [of due' now'] compute_fee_not_overdue [of now' due'] by simp
  have range: "0 \<le> (if 0 < ?d then spec_fee ?d else 0)
               \<and> (if 0 < ?d then spec_fee ?d else 0) \<le> 15"
    using spec_fee_bounds [of ?d] by auto
  have mono: "?d \<le> ?d' \<Longrightarrow>
              (if 0 < ?d then spec_fee ?d else 0) \<le> (if 0 < ?d' then spec_fee ?d' else 0)"
    using spec_fee_mono [of ?d ?d'] spec_fee_bounds [of ?d'] by auto
  have mono_days: "(if 0 < ?d then ?d else 0) \<le> (if 0 < ?d' then ?d' else 0) \<Longrightarrow>
              (if 0 < ?d then spec_fee ?d else 0) \<le> (if 0 < ?d' then spec_fee ?d' else 0)"
    using spec_fee_mono [of ?d ?d'] spec_fee_bounds [of ?d'] by (auto split: if_splits)
  show ?thesis
    unfolding fee fee' days days' using range mono mono_days by simp
qed

text \<open>Seven days overdue cost 3.50 and eight days 4.50; two days before the due date cost 0.\<close>

theorem fee_bounded_monotone_witness:
  "(7 :: int) \<le> 8
   \<and> fst (compute_fee_from_due_and_end (Some \<lparr>dt_date = 738886, dt_time = 0\<rparr>)
            (Some \<lparr>dt_date = 738893, dt_time = 0\<rparr>))
     \<le> fst (compute_fee_from_due_and_end (Some \<lparr>dt_date = 738886, dt_time = 0\<rparr>)
              (Some \<lparr>dt_date = 738894, dt_time = 0\<rparr>))
   \<and> fst (compute_fee_from_due_and_end (Some \<lparr>dt_date = 738886, dt_time = 0\<rparr>)
            (Some \<lparr>dt_date = 738884, dt_time = 0\<rparr>)) = 0"
  using
    fee_bounded_monotone [of "\<lparr>dt_date = 738886, dt_time = 0\<rparr>"
      "\<lparr>dt_date = 738893, dt_time = 0\<rparr>" "\<lparr>dt_date = 738894, dt_time = 0\<rparr>"
      "\<lparr>dt_date = 738886, dt_time = 0\<rparr>"]
    fee_bounded_monotone [of "\<lparr>dt_date = 738886, dt_time = 0\<rparr>"
      "\<lparr>dt_date = 738884, dt_time = 0\<rparr>"]
  by simp

subsection \<open>Evaluation of the examples\<close>

lemmas example_defs = example_state_def example_book_def borrowed_on_def mem_db_def
  is_active_def title_of_def or_empty_def

text \<open>The dates of the examples, as the example library prints them.\<close>

lemma example_dates:
  "format_ymd \<lparr>dt_date = 738886, dt_time = 0\<rparr> = ''2024-01-01''"
  "format_ymd \<lparr>dt_date = 738894, dt_time = 0\<rparr> = ''2024-01-09''"
  "format_ymd \<lparr>dt_date = 738900, dt_time = 0\<rparr> = ''2024-01-15''"
  by code_simp+

lemma example_due_text:
  "strftime example_lib \<lparr>dt_date = 738886, dt_time = 0\<rparr> ''%Y-%m-%d'' = ''2024-01-01''"
  "strftime example_lib \<lparr>dt_date = 738894, dt_time = 0\<rparr> ''%Y-%m-%d'' = ''2024-01-09''"
  "strftime example_lib \<lparr>dt_date = 738900, dt_time = 0\<rparr> ''%Y-%m-%d'' = ''2024-01-15''"
  by (simp_all add: example_lib_def example_dates)

lemma six_digits_accepted: "six_digits patron_id \<Longrightarrow> \<not> invalid_patron_id patron_id"
proof -
  assume six: "six_digits patron_id"
  have "decimal_digit c \<Longrightarrow> isdigit_char c" for c
    by (simp add: decimal_digit_def isdigit_char_def)
  with six have "list_all isdigit_char patron_id"
    by (auto simp: six_digits_def list_all_iff)
  with six show ?thesis
    by (auto simp: invalid_patron_id_def isdigit_def six_digits_def)
qed

lemma valid_patron_example: "\<not> invalid_patron_id ''123456''"
  by (simp add: invalid_patron_id_def isdigit_def isdigit_char_def)

lemma invalid_patron_example: "invalid_patron_id ''12A456''"
  by (simp add: invalid_patron_id_def isdigit_def isdigit_char_def)

text \<open>
  The guard of the source and the six digits of the specification differ only on the
  superscript digits (code points 178, 179 and 185), which \<^verbatim>\<open>str.isdigit\<close> accepts.
\<close>

lemma isdigit_char_decimal:
  "isdigit_char c \<Longrightarrow> (of_char c :: nat) \<notin> {178, 179, 185} \<Longrightarrow> decimal_digit c"
  by (auto simp: isdigit_char_def decimal_digit_def Let_def)

lemma guard_is_six_digits:
  assumes "\<forall>c \<in> set patron_id. (of_char c :: nat) \<notin> {178, 179, 185}"
  shows "invalid_patron_id patron_id = (\<not> six_digits patron_id)"
proof
  assume "invalid_patron_id patron_id"
  then show "\<not> six_digits patron_id"
    using six_digits_accepted by blast
next
  assume not_six: "\<not> six_digits patron_id"
  show "invalid_patron_id patron_id"
  proof (rule ccontr)
    assume "\<not> invalid_patron_id patron_id"
    then have len: "length patron_id = 6" and digits: "list_all isdigit_char patron_id"
      by (auto simp: invalid_patron_id_def isdigit_def)
    from digits assms have "list_all decimal_digit patron_id"
      using isdigit_char_decimal by (auto simp: list_all_iff)
    with len not_six show False
      by (simp add: six_digits_def)
  qed
qed

lemma superscript_id_not_six_digits: "\<not> six_digits superscript_id"
  by (simp add: six_digits_def superscript_id_def decimal_digit_def)

lemma superscript_id_accepted: "\<not> invalid_patron_id superscript_id"
  by (simp add: invalid_patron_id_def superscript_id_def isdigit_def isdigit_char_def)

subsection \<open>Catalog\<close>

lemma add_book_rejects:
  "strip title = [] \<or> length (strip title) > 200
   \<or> strip author = [] \<or> length (strip author) > 100
   \<or> length isbn \<noteq> 13 \<or> total_copies \<le> 0
   \<or> get_book_by_isbn db s isbn \<noteq> None \<Longrightarrow>
   fst (fst (add_book_to_catalog db s title author isbn total_copies)) = False
   \<and> snd (add_book_to_catalog db s title author isbn total_copies) = s"
  by (auto simp: add_book_to_catalog_def split: option.splits)

lemma add_book_accepts:
  "strip title \<noteq> [] \<Longrightarrow> length (strip title) \<le> 200 \<Longrightarrow>
   strip author \<noteq> [] \<Longrightarrow> length (strip author) \<le> 100 \<Longrightarrow>
   length isbn = 13 \<Longrightarrow> 0 < total_copies \<Longrightarrow> get_book_by_isbn db s isbn = None \<Longrightarrow>
   insert_book db s (strip title) (strip author) isbn total_copies total_copies = (True, s') \<Longrightarrow>
   add_book_to_catalog db s title author isbn total_copies
     = ((True, ''Book '' @ [CHR 0x22] @ strip title
               @ [CHR 0x22] @ '' has been successfully added to the catalog.''), s')"
  by (auto simp: add_book_to_catalog_def strip_def split: option.splits)

text \<open>
  C3. \<^verbatim>\<open>add_book_to_catalog\<close> is to reject every ISBN that is not exactly 13
  digits, a string of 13 characters with a character that is no digit included. The
  source only compares the length of the ISBN with 13: on an empty catalog the ISBN
  \<^verbatim>\<open>12345678901ab\<close> is accepted and the book is stored. (The other rejections of
  the claim and its success case are \<open>add_book_rejects\<close> and \<open>add_book_accepts\<close>.)
\<close>

theorem add_book_accepts_non_digit_isbn:
  \<open>\<not> isdigit ''12345678901ab''
   \<and> length ''12345678901ab'' = 13
   \<and> add_book_to_catalog mem_db \<lparr>ms_books = [], ms_records = []\<rparr>
        ''Book'' ''Author'' ''12345678901ab'' 1
     = ((True, ''Book "Book" has been successfully added to the catalog.''),
        \<lparr>ms_books = [\<lparr>bk_id = 1, bk_title = ''Book'', bk_author = ''Author'',
                       bk_isbn = ''12345678901ab'', bk_total_copies = 1,
                       bk_available_copies = 1\<rparr>],
         ms_records = []\<rparr>)\<close>
  by (simp add: add_book_to_catalog_def mem_db_def strip_def isspace_char_def isdigit_def
      isdigit_char_def)

subsection \<open>Lending\<close>

text \<open>
  What the source does: \<^verbatim>\<open>borrow_book_by_patron\<close> fails and leaves the persisted
  state as it is whenever its guard rejects the patron ID, or the book does not
  exist, or the book has no available copy, or the patron has 5 or more active
  borrows. When the guard accepts the patron ID and the other three preconditions
  hold, it inserts a borrow record with the due date 14 days after \<open>now\<close> and then
  adjusts the availability of the book by -1; it succeeds exactly when both writes
  succeed.
\<close>

lemma borrow_preconditions:
  \<open>((invalid_patron_id patron_id
      \<or> get_book_by_id db s book_id = None
      \<or> (\<exists>book. get_book_by_id db s book_id = Some book \<and> bk_available_copies book \<le> 0)
      \<or> get_patron_borrow_count db s patron_id \<ge> 5) \<longrightarrow>
     fst (fst (borrow_book_by_patron db lib s now patron_id book_id)) = False
     \<and> snd (borrow_book_by_patron db lib s now patron_id book_id) = s)
   \<and> (\<not> invalid_patron_id patron_id
      \<and> get_book_by_id db s book_id = Some book \<and> 0 < bk_available_copies book
      \<and> get_patron_borrow_count db s patron_id < 5 \<longrightarrow>
      (let inserted = insert_borrow_record db s patron_id book_id now (add_days now 14);
           updated = update_book_availability db (snd inserted) book_id (- 1)
       in borrow_book_by_patron db lib s now patron_id book_id =
            (if \<not> fst inserted then
               ((False, ''Database error occurred while creating borrow record.''),
                snd inserted)
             else if \<not> fst updated then
               ((False, ''Database error occurred while updating book availability.''),
                snd updated)
             else
               ((True, ''Successfully borrowed "'' @ bk_title book @ ''". Due date: ''
                       @ strftime lib (add_days now 14) ''%Y-%m-%d'' @ ''.''),
                snd updated))))\<close>
  by (auto simp: borrow_book_by_patron_def Let_def
      split: option.splits prod.splits)

text \<open>
  On the in-memory database: a first borrow on 2024-01-01 is due on 2024-01-15 and
  leaves one available copy; a patron with five active borrows is refused.
\<close>

lemma borrow_preconditions_example:
  \<open>borrow_book_by_patron mem_db example_lib (example_state [])
      \<lparr>dt_date = 738886, dt_time = 0\<rparr> ''123456'' 1
     = ((True, ''Successfully borrowed "1984". Due date: 2024-01-15.''),
        \<lparr>ms_books = [example_book\<lparr>bk_available_copies := 1\<rparr>],
         ms_records = [borrowed_on 738886]\<rparr>)
   \<and> get_patron_borrow_count mem_db
        (example_state (map borrowed_on [738880, 738881, 738882, 738883, 738884])) ''123456'' = 5
   \<and> borrow_book_by_patron mem_db example_lib
        (example_state (map borrowed_on [738880, 738881, 738882, 738883, 738884]))
        \<lparr>dt_date = 738886, dt_time = 0\<rparr> ''123456'' 1
     = ((False, ''You have reached the maximum borrowing limit of 5 books.''),
        example_state (map borrowed_on [738880, 738881, 738882, 738883, 738884]))\<close>
proof -
  let ?now = "\<lparr>dt_date = 738886, dt_time = 0\<rparr>"
  let ?full = "example_state (map borrowed_on [738880, 738881, 738882, 738883, 738884])"
  have valid: "\<not> invalid_patron_id ''123456''"
    using valid_patron_example by (simp add:)
  have pre: "\<not> invalid_patron_id ''123456''
      \<and> get_book_by_id mem_db (example_state []) 1 = Some example_book
      \<and> 0 < bk_available_copies example_book
      \<and> get_patron_borrow_count mem_db (example_state []) ''123456'' < 5"
    using valid_patron_example by (simp add: example_defs)
  have count: "get_patron_borrow_count mem_db ?full ''123456'' = 5"
    by (simp add: example_defs)
  have accepted: "borrow_book_by_patron mem_db example_lib (example_state []) ?now ''123456'' 1
     = ((True, ''Successfully borrowed \"1984\". Due date: 2024-01-15.''),
        \<lparr>ms_books = [example_book\<lparr>bk_available_copies := 1\<rparr>],
         ms_records = [borrowed_on 738886]\<rparr>)"
    using pre borrow_preconditions [where db = mem_db and s = "example_state []"
        and patron_id = "''123456''" and book_id = 1 and book = example_book
        and now = ?now and lib = example_lib]
    by (simp add: example_defs add_days_def example_due_text Let_def)
  have rejected: "fst (fst (borrow_book_by_patron mem_db example_lib ?full ?now ''123456'' 1)) = False
      \<and> snd (borrow_book_by_patron mem_db example_lib ?full ?now ''123456'' 1) = ?full"
    using count borrow_preconditions [where db = mem_db and s = ?full
        and patron_id = "''123456''" and book_id = 1 and now = ?now and lib = example_lib]
    by simp
  have "snd (fst (borrow_book_by_patron mem_db example_lib ?full ?now ''123456'' 1))
     = ''You have reached the maximum borrowing limit of 5 books.''"
    using valid count by (simp add: borrow_book_by_patron_def example_defs)
  with rejected
  have "borrow_book_by_patron mem_db example_lib ?full ?now ''123456'' 1
     = ((False, ''You have reached the maximum borrowing limit of 5 books.''), ?full)"
    by (simp add: prod_eq_iff)
  with accepted count show ?thesis by simp
qed

text \<open>
  C4. \<^verbatim>\<open>borrow_book_by_patron\<close> is to fail, without any write, whenever the patron
  ID is not exactly 6 digits. The guard of the source tests \<^verbatim>\<open>patron_id.isdigit()\<close>,
  which also accepts the superscript digits: the patron ID \<^verbatim>\<open>12345\<close> followed by a
  superscript two is not six digits, yet the borrow succeeds, a record is stored and
  the availability is decremented. (For every patron ID without a superscript digit
  the claim holds: \<open>borrow_preconditions\<close> with \<open>guard_is_six_digits\<close>.)
\<close>

theorem borrow_accepts_superscript_digit:
  \<open>\<not> six_digits superscript_id
   \<and> borrow_book_by_patron mem_db example_lib (example_state [])
        \<lparr>dt_date = 738886, dt_time = 0\<rparr> superscript_id 1
     = ((True, ''Successfully borrowed "1984". Due date: 2024-01-15.''),
        \<lparr>ms_books = [example_book\<lparr>bk_available_copies := 1\<rparr>],
         ms_records = [\<lparr>br_patron_id = superscript_id, br_book_id = 1,
                         br_borrow_date = \<lparr>dt_date = 738886, dt_time = 0\<rparr>,
                         br_due_date = \<lparr>dt_date = 738900, dt_time = 0\<rparr>,
                         br_return_date = None\<rparr>]\<rparr>)\<close>
proof -
  let ?now = "\<lparr>dt_date = 738886, dt_time = 0\<rparr>"
  let ?run = "borrow_book_by_patron mem_db example_lib (example_state []) ?now superscript_id 1"
  have due: "strftime example_lib \<lparr>dt_date = 738900, dt_time = 0\<rparr> ''%Y-%m-%d''
             = ''2024-01-15''"
    by (simp add: example_due_text)
  have accepted: "invalid_patron_id superscript_id = False"
    using superscript_id_accepted by simp
  have flag: "fst (fst ?run)"
    by (simp add: borrow_book_by_patron_def accepted example_defs add_days_def Let_def)
  have message: \<open>snd (fst ?run) = ''Successfully borrowed "1984". Due date: 2024-01-15.''\<close>
    by (simp add: borrow_book_by_patron_def accepted example_defs add_days_def due Let_def)
  have state: "snd ?run
     = \<lparr>ms_books = [example_book\<lparr>bk_available_copies := 1\<rparr>],
        ms_records = [\<lparr>br_patron_id = superscript_id, br_book_id = 1,
                        br_borrow_date = \<lparr>dt_date = 738886, dt_time = 0\<rparr>,
                        br_due_date = \<lparr>dt_date = 738900, dt_time = 0\<rparr>,
                        br_return_date = None\<rparr>]\<rparr>"
    by (simp add: borrow_book_by_patron_def accepted example_defs add_days_def Let_def)
  from flag message state superscript_id_not_six_digits show ?thesis
    by (simp add: prod_eq_iff)
qed







subsection \<open>Patron status report\<close>

text \<open>
  What the source does: for a patron ID that its guard rejects, the report is the
  shell with status \<^verbatim>\<open>invalid_patron_id\<close>, no current borrow, no history, count 0
  and total fee 0, whatever the database, its state, the date library and the clock.
\<close>

lemma invalid_patron_report:
  "invalid_patron_id patron_id \<longrightarrow>
   get_patron_status_report db lib s now patron_id
     = \<lparr>rp_patron_id = patron_id, rp_current_borrows = [], rp_current_borrow_count = 0,
        rp_total_late_fees = 0, rp_history = [], rp_status = ''invalid_patron_id''\<rparr>
   \<and> get_patron_status_report db lib s now patron_id
     = get_patron_status_report db' lib' s' now' patron_id"
  by (simp add: get_patron_status_report_def)

lemma invalid_patron_report_example:
  "invalid_patron_id ''ABCDEF''
   \<and> get_patron_status_report mem_db example_lib (example_state [borrowed_on 738872])
        (\<lambda>k. \<lparr>dt_date = 738890, dt_time = k\<rparr>) ''ABCDEF''
     = \<lparr>rp_patron_id = ''ABCDEF'', rp_current_borrows = [], rp_current_borrow_count = 0,
        rp_total_late_fees = 0, rp_history = [], rp_status = ''invalid_patron_id''\<rparr>"
proof -
  have invalid: "invalid_patron_id ''ABCDEF''"
    by (simp add: invalid_patron_id_def isdigit_def isdigit_char_def)
  with invalid_patron_report [where patron_id = "''ABCDEF''" and db = mem_db
      and lib = example_lib and s = "example_state [borrowed_on 738872]"
      and now = "\<lambda>k. \<lparr>dt_date = 738890, dt_time = k\<rparr>"
      and db' = mem_db and lib' = example_lib and s' = "example_state []"
      and now' = "\<lambda>k. \<lparr>dt_date = 0, dt_time = 0\<rparr>"]
  show ?thesis by simp
qed

text \<open>
  C6. For every patron ID that is not exactly 6 digits the report is to be the shell
  with status \<^verbatim>\<open>invalid_patron_id\<close>, the same for every persisted state. The guard
  of the source tests \<^verbatim>\<open>patron_id.isdigit()\<close>, which also accepts the superscript
  digits: for the patron ID \<^verbatim>\<open>12345\<close> followed by a superscript two, which is not
  six digits, the status is \<^verbatim>\<open>ok\<close> and the report reads the persisted state (one
  current borrow with a fee of 2.00 in one state, none in another). (For every patron
  ID without a superscript digit the claim holds: \<open>invalid_patron_report\<close> with
  \<open>guard_is_six_digits\<close>.)
\<close>

theorem report_accepts_superscript_digit:
  "\<not> six_digits superscript_id
   \<and> rp_status (get_patron_status_report mem_db example_lib (example_state [])
        (\<lambda>k. \<lparr>dt_date = 738890, dt_time = 0\<rparr>) superscript_id) = ''ok''
   \<and> rp_current_borrow_count
        (get_patron_status_report mem_db example_lib (example_state [])
           (\<lambda>k. \<lparr>dt_date = 738890, dt_time = 0\<rparr>) superscript_id) = 0
   \<and> rp_current_borrow_count
        (get_patron_status_report mem_db example_lib (example_state [superscript_borrow])
           (\<lambda>k. \<lparr>dt_date = 738890, dt_time = 0\<rparr>) superscript_id) = 1
   \<and> rp_total_late_fees
        (get_patron_status_report mem_db example_lib (example_state [superscript_borrow])
           (\<lambda>k. \<lparr>dt_date = 738890, dt_time = 0\<rparr>) superscript_id) = 2"
proof -
  let ?clock = "\<lambda>k :: nat. \<lparr>dt_date = 738890, dt_time = 0\<rparr>"
  have fee: "compute_fee_from_due_and_end (Some \<lparr>dt_date = 738886, dt_time = 0\<rparr>)
               (Some \<lparr>dt_date = 738890, dt_time = 0\<rparr>) = (2, 4)"
    using compute_fee_overdue [of "\<lparr>dt_date = 738886, dt_time = 0\<rparr>"
        "\<lparr>dt_date = 738890, dt_time = 0\<rparr>"]
    by (simp add: spec_fee_def)
  have two: "monetize 2 = 2" and zero: "monetize 0 = 0"
    using monetize_halves [of 4] monetize_halves [of 0] by simp_all
  have accepted: "invalid_patron_id superscript_id = False"
    using superscript_id_accepted by simp
  have none: "or_empty (get_patron_borrowed_books mem_db (example_state []) superscript_id) = []"
    by (simp add: example_defs)
  have one: "or_empty (get_patron_borrowed_books mem_db (example_state [superscript_borrow])
                superscript_id)
      = [\<lparr>row_book_id = 1, row_title = ''1984'',
          row_due_date = PDatetime \<lparr>dt_date = 738886, dt_time = 0\<rparr>\<rparr>]"
    by (simp add: example_defs superscript_borrow_def)
  have history: "history_query mem_db s p = Inr (mem_history s p)" for s p
    by (simp add: mem_db_def)
  note eval = get_patron_status_report_def accepted none one history due_of_def fee two zero
    Let_def
  have "rp_status (get_patron_status_report mem_db example_lib (example_state [])
          ?clock superscript_id) = ''ok''"
    by (simp add: eval)
  moreover have "rp_current_borrow_count
        (get_patron_status_report mem_db example_lib (example_state [])
           ?clock superscript_id) = 0"
    by (simp add: eval)
  moreover have "rp_current_borrow_count
        (get_patron_status_report mem_db example_lib (example_state [superscript_borrow])
           ?clock superscript_id) = 1"
    by (simp add: eval)
  moreover have "rp_total_late_fees
        (get_patron_status_report mem_db example_lib (example_state [superscript_borrow])
           ?clock superscript_id) = 2"
    by (simp add: eval)
  ultimately show ?thesis
    using superscript_id_not_six_digits by blast
qed

lemma current_borrows_loop_length:
  "length (snd (current_borrows_loop lib now k rs (t, acc))) = length acc + length rs"
  by (induction rs arbitrary: k t acc) (auto simp: Let_def split: prod.splits)

text \<open>
  C7. For a valid patron ID, when the history query raises, the history of the report
  is empty, its status is \<^verbatim>\<open>ok\<close>, and its current borrows, their count and the
  total of the fees are those computed from the active borrow records: the report is
  the one of a successful history query with the history emptied.
\<close>

theorem history_failure_swallowed:
  "\<not> invalid_patron_id patron_id \<and> history_query db s patron_id = Inl e \<longrightarrow>
   rp_history (get_patron_status_report db lib s now patron_id) = []
   \<and> rp_status (get_patron_status_report db lib s now patron_id) = ''ok''
   \<and> rp_current_borrows (get_patron_status_report db lib s now patron_id)
     = snd (current_borrows_loop lib now 0
              (or_empty (get_patron_borrowed_books db s patron_id)) (0, []))
   \<and> rp_current_borrow_count (get_patron_status_report db lib s now patron_id)
     = length (or_empty (get_patron_borrowed_books db s patron_id))
   \<and> rp_total_late_fees (get_patron_status_report db lib s now patron_id)
     = monetize (fst (current_borrows_loop lib now 0
                        (or_empty (get_patron_borrowed_books db s patron_id)) (0, [])))
   \<and> get_patron_status_report db lib s now patron_id
     = (get_patron_status_report (db\<lparr>history_query := \<lambda>s p. Inr rows\<rparr>) lib s now patron_id)
         \<lparr>rp_history := []\<rparr>"
  using current_borrows_loop_length [of lib now 0 "or_empty (get_patron_borrowed_books db s patron_id)" 0 "[]"]
  by (auto simp: get_patron_status_report_def Let_def split: prod.splits)

theorem history_failure_swallowed_witness:
  "\<not> invalid_patron_id ''123456''
   \<and> history_query db_down (example_state [borrowed_on 738872]) ''123456''
     = Inl (Exception ''db down'')
   \<and> get_patron_status_report db_down example_lib (example_state [borrowed_on 738872])
        (\<lambda>k. \<lparr>dt_date = 738890, dt_time = k\<rparr>) ''123456''
     = \<lparr>rp_patron_id = ''123456'',
        rp_current_borrows =
          [\<lparr>cb_book_id = 1, cb_title = ''1984'', cb_due_date = Some ''2024-01-01'',
            cb_days_overdue = 4, cb_late_fee = 2\<rparr>],
        rp_current_borrow_count = 1, rp_total_late_fees = 2, rp_history = [],
        rp_status = ''ok''\<rparr>"
proof -
  let ?now = "\<lambda>k. \<lparr>dt_date = 738890, dt_time = k\<rparr>"
  let ?s = "example_state [borrowed_on 738872]"
  let ?r = "get_patron_status_report db_down example_lib ?s ?now ''123456''"
  have valid: "\<not> invalid_patron_id ''123456''"
    by (simp add: invalid_patron_id_def isdigit_def isdigit_char_def)
  have down: "history_query db_down ?s ''123456'' = Inl (Exception ''db down'')"
    by (simp add: db_down_def)
  have fee: "compute_fee_from_due_and_end (Some \<lparr>dt_date = 738886, dt_time = 0\<rparr>)
               (Some \<lparr>dt_date = 738890, dt_time = 0\<rparr>) = (2, 4)"
    using compute_fee_overdue [of "\<lparr>dt_date = 738886, dt_time = 0\<rparr>"
        "\<lparr>dt_date = 738890, dt_time = 0\<rparr>"]
    by (simp add: spec_fee_def)
  have two: "monetize 2 = 2"
    using monetize_halves [of 4] by simp
  have rows: "or_empty (get_patron_borrowed_books db_down ?s ''123456'')
      = [\<lparr>row_book_id = 1, row_title = ''1984'',
          row_due_date = PDatetime \<lparr>dt_date = 738886, dt_time = 0\<rparr>\<rparr>]"
    by (simp add: db_down_def example_defs)
  have due: "strftime example_lib \<lparr>dt_date = 738886, dt_time = 0\<rparr> ''%Y-%m-%d'' = ''2024-01-01''"
    by (simp add: example_due_text)
  have loop: "current_borrows_loop example_lib ?now 0
      [\<lparr>row_book_id = 1, row_title = ''1984'',
        row_due_date = PDatetime \<lparr>dt_date = 738886, dt_time = 0\<rparr>\<rparr>] (0, [])
      = (2, [\<lparr>cb_book_id = 1, cb_title = ''1984'', cb_due_date = Some ''2024-01-01'',
            cb_days_overdue = 4, cb_late_fee = 2\<rparr>])"
    by (simp add: due_of_def fee two ymd_or_none_def due)
  note swallowed = history_failure_swallowed [where db = db_down and lib = example_lib
      and s = ?s and now = ?now and patron_id = "''123456''" and e = "Exception ''db down''"
      and rows = "[]"]
  from swallowed valid down
  have parts: "rp_history ?r = [] \<and> rp_status ?r = ''ok''
     \<and> rp_current_borrows ?r
       = snd (current_borrows_loop example_lib ?now 0
                (or_empty (get_patron_borrowed_books db_down ?s ''123456'')) (0, []))
     \<and> rp_current_borrow_count ?r
       = length (or_empty (get_patron_borrowed_books db_down ?s ''123456''))
     \<and> rp_total_late_fees ?r
       = monetize (fst (current_borrows_loop example_lib ?now 0
                          (or_empty (get_patron_borrowed_books db_down ?s ''123456'')) (0, [])))"
    by blast
  have "rp_history ?r = [] \<and> rp_status ?r = ''ok''
     \<and> rp_current_borrows ?r = [\<lparr>cb_book_id = 1, cb_title = ''1984'',
            cb_due_date = Some ''2024-01-01'', cb_days_overdue = 4, cb_late_fee = 2\<rparr>]
     \<and> rp_current_borrow_count ?r = 1 \<and> rp_total_late_fees ?r = 2"
    using parts unfolding rows loop by (simp add: two)
  moreover have "rp_patron_id ?r = ''123456''"
    by (simp add: get_patron_status_report_def Let_def split: prod.splits sum.splits)
  ultimately have "?r = \<lparr>rp_patron_id = ''123456'',
        rp_current_borrows =
          [\<lparr>cb_book_id = 1, cb_title = ''1984'', cb_due_date = Some ''2024-01-01'',
            cb_days_overdue = 4, cb_late_fee = 2\<rparr>],
        rp_current_borrow_count = 1, rp_total_late_fees = 2, rp_history = [],
        rp_status = ''ok''\<rparr>"
    by (cases ?r) simp
  with valid down show ?thesis by simp
qed

subsection \<open>Payment settlement\<close>

lemma example_fee_late:
  "compute_fee_from_due_and_end (Some \<lparr>dt_date = 738886, dt_time = 0\<rparr>)
     (Some \<lparr>dt_date = 738890, dt_time = 0\<rparr>) = (2, 4)"
  using compute_fee_overdue [of "\<lparr>dt_date = 738886, dt_time = 0\<rparr>"
      "\<lparr>dt_date = 738890, dt_time = 0\<rparr>"]
  by (simp add: spec_fee_def)

lemma example_fee_on_time:
  "compute_fee_from_due_and_end (Some \<lparr>dt_date = 738894, dt_time = 0\<rparr>)
     (Some \<lparr>dt_date = 738890, dt_time = 0\<rparr>) = (0, 0)"
  by (simp add: compute_fee_not_overdue)

lemma monetize_example: "monetize 2 = 2" and monetize_zero: "monetize 0 = 0"
  using monetize_halves [of 4] monetize_halves [of 0] by simp_all

lemma example_fee_info_late:
  "calculate_late_fee_for_book mem_db example_lib (example_state [borrowed_on 738872])
     \<lparr>dt_date = 738890, dt_time = 0\<rparr> ''123456'' 1
   = \<lparr>fi_fee_amount = Some 2, fi_days_overdue = Some 4,
      fi_due_date = Some (Some ''2024-01-01''), fi_status = Some ''ok''\<rparr>"
  by (simp add: calculate_late_fee_for_book_def example_defs due_of_def example_fee_late
      monetize_example ymd_or_none_def example_due_text)

lemma example_fee_info_on_time:
  "calculate_late_fee_for_book mem_db example_lib (example_state [borrowed_on 738880])
     \<lparr>dt_date = 738890, dt_time = 0\<rparr> ''123456'' 1
   = \<lparr>fi_fee_amount = Some 0, fi_days_overdue = Some 0,
      fi_due_date = Some (Some ''2024-01-09''), fi_status = Some ''not_overdue''\<rparr>"
  by (simp add: calculate_late_fee_for_book_def example_defs due_of_def example_fee_on_time
      monetize_zero ymd_or_none_def example_due_text)

lemma example_book_found:
  "get_book_by_id mem_db (example_state rs) 1 = Some example_book"
  by (simp add: example_defs)

lemma pay_from_no_fee:
  "fi_fee_amount fee_info = Some fee \<Longrightarrow> fee \<le> 0 \<Longrightarrow>
   pay_late_fees_from gw db s fee_info patron_id book_id payment_gateway
     = ((False, ''No late fees to pay for this book.'', None), payment_gateway)"
  by (simp add: pay_late_fees_from_def)

lemma pay_from_reaches_gateway:
  "fi_fee_amount fee_info = Some fee \<Longrightarrow> 0 < fee \<Longrightarrow>
   get_book_by_id db s book_id = Some book \<Longrightarrow>
   pay_late_fees_from gw db s fee_info patron_id book_id payment_gateway
     = (case process_payment gw
               (case payment_gateway of None \<Rightarrow> new_gateway gw | Some g \<Rightarrow> g)
               patron_id fee (''Late fees for '' @ [CHR 0x27] @ bk_title book @ [CHR 0x27]) of
          (Inr (success, transaction_id, message), g') \<Rightarrow>
            if success then
              ((True, ''Payment successful! '' @ message, Some transaction_id), Some g')
            else ((False, ''Payment failed: '' @ message, None), Some g')
        | (Inl (Exception e), g') \<Rightarrow>
            ((False, ''Payment processing error: '' @ e, None), Some g'))"
  by (simp add: pay_late_fees_from_def Let_def)

lemma calculate_fee_amount_present:
  "\<exists>fee. fi_fee_amount (calculate_late_fee_for_book db lib s now patron_id book_id) = Some fee"
  by (simp add: calculate_late_fee_for_book_def Let_def split: option.splits prod.splits)

text \<open>
  C8. When the patron ID is valid and the computed fee is zero or negative,
  \<^verbatim>\<open>pay_late_fees\<close> fails with the message that there are no late fees to pay and
  does not call the gateway: the gateway object is returned as it was given and the
  result is the same for every gateway. (The computed fee of the source is never
  negative; the second part states the same for the body of the function and any
  fee dictionary.) When \<^verbatim>\<open>process_payment\<close> raises, the exception becomes a
  failure with the processing-error message and no transaction identifier.
\<close>

theorem pay_no_fee_or_gateway_fault:
  "(\<not> invalid_patron_id patron_id
    \<and> fi_fee_amount (calculate_late_fee_for_book db lib s now patron_id book_id) = Some fee
    \<and> fee \<le> 0 \<longrightarrow>
      pay_late_fees gw db lib s now patron_id book_id payment_gateway
        = ((False, ''No late fees to pay for this book.'', None), payment_gateway)
      \<and> pay_late_fees gw db lib s now patron_id book_id payment_gateway
        = pay_late_fees gw' db lib s now patron_id book_id payment_gateway)
   \<and> (fi_fee_amount fee_info = Some fee \<and> fee \<le> 0 \<longrightarrow>
      pay_late_fees_from gw db s fee_info patron_id book_id payment_gateway
        = ((False, ''No late fees to pay for this book.'', None), payment_gateway))
   \<and> (\<not> invalid_patron_id patron_id
      \<and> fi_fee_amount (calculate_late_fee_for_book db lib s now patron_id book_id) = Some fee
      \<and> 0 < fee \<and> get_book_by_id db s book_id = Some book
      \<and> process_payment gw
            (case payment_gateway of None \<Rightarrow> new_gateway gw | Some g \<Rightarrow> g)
            patron_id fee (''Late fees for '' @ [CHR 0x27] @ bk_title book @ [CHR 0x27])
          = (Inl (Exception e), g') \<longrightarrow>
      pay_late_fees gw db lib s now patron_id book_id payment_gateway
        = ((False, ''Payment processing error: '' @ e, None), Some g'))"
  using pay_from_no_fee [of fee_info fee gw db s patron_id book_id payment_gateway]
    pay_from_no_fee [of "calculate_late_fee_for_book db lib s now patron_id book_id" fee
      gw db s patron_id book_id payment_gateway]
    pay_from_no_fee [of "calculate_late_fee_for_book db lib s now patron_id book_id" fee
      gw' db s patron_id book_id payment_gateway]
    pay_from_reaches_gateway [of "calculate_late_fee_for_book db lib s now patron_id book_id"
      fee db s book_id book gw patron_id payment_gateway]
  by (auto simp: pay_late_fees_def Let_def)

text \<open>
  A book that is not overdue: nothing to pay and no call recorded by the gateway. A
  book four days overdue and a gateway that raises: a processing error, after one
  recorded call for the amount 2.00.
\<close>

theorem pay_no_fee_or_gateway_fault_witness:
  "pay_late_fees (mock_gateway (Inr (True, ''txn_1'', ''Approved'')) (Inr (True, ''Refunded'')))
     mem_db example_lib (example_state [borrowed_on 738880])
     \<lparr>dt_date = 738890, dt_time = 0\<rparr> ''123456'' 1 (Some [])
   = ((False, ''No late fees to pay for this book.'', None), Some [])
   \<and> pay_late_fees (mock_gateway (Inl (Exception ''Network error'')) (Inr (True, ''Refunded'')))
     mem_db example_lib (example_state [borrowed_on 738872])
     \<lparr>dt_date = 738890, dt_time = 0\<rparr> ''123456'' 1 (Some [])
   = ((False, ''Payment processing error: Network error'', None),
      Some [ProcessPayment ''123456'' 2 (''Late fees for '' @ [CHR 0x27] @ ''1984'' @ [CHR 0x27])])"
proof -
  let ?now = "\<lparr>dt_date = 738890, dt_time = 0\<rparr>"
  let ?approving = "mock_gateway (Inr (True, ''txn_1'', ''Approved'')) (Inr (True, ''Refunded''))"
  let ?failing = "mock_gateway (Inl (Exception ''Network error'')) (Inr (True, ''Refunded''))"
  have on_time: "\<not> invalid_patron_id ''123456''
      \<and> fi_fee_amount (calculate_late_fee_for_book mem_db example_lib
            (example_state [borrowed_on 738880]) ?now ''123456'' 1) = Some 0
      \<and> (0 :: rat) \<le> 0"
    by (simp add: valid_patron_example example_fee_info_on_time)
  have late: "\<not> invalid_patron_id ''123456''
      \<and> fi_fee_amount (calculate_late_fee_for_book mem_db example_lib
            (example_state [borrowed_on 738872]) ?now ''123456'' 1) = Some 2
      \<and> (0 :: rat) < 2
      \<and> get_book_by_id mem_db (example_state [borrowed_on 738872]) 1 = Some example_book
      \<and> process_payment ?failing
            (case Some [] of None \<Rightarrow> new_gateway ?failing | Some g \<Rightarrow> g)
            ''123456'' 2 (''Late fees for '' @ [CHR 0x27] @ bk_title example_book @ [CHR 0x27])
          = (Inl (Exception ''Network error''),
             [ProcessPayment ''123456'' 2
                (''Late fees for '' @ [CHR 0x27] @ ''1984'' @ [CHR 0x27])])"
    by (simp add: valid_patron_example example_fee_info_late example_book_found
        mock_gateway_def example_book_def)
  note no_fee = pay_no_fee_or_gateway_fault [where gw = ?approving and gw' = ?approving
      and db = mem_db and lib = example_lib and s = "example_state [borrowed_on 738880]"
      and now = ?now and patron_id = "''123456''" and book_id = 1 and fee = 0
      and payment_gateway = "Some []" and fee_info = "\<lparr>fi_fee_amount = Some 0,
        fi_days_overdue = None, fi_due_date = None, fi_status = None\<rparr>"
      and book = example_book and e = "[]" and g' = "[]"]
  note fault = pay_no_fee_or_gateway_fault [where gw = ?failing and gw' = ?failing
      and db = mem_db and lib = example_lib and s = "example_state [borrowed_on 738872]"
      and now = ?now and patron_id = "''123456''" and book_id = 1 and fee = 2
      and payment_gateway = "Some []" and fee_info = "\<lparr>fi_fee_amount = Some 2,
        fi_days_overdue = None, fi_due_date = None, fi_status = None\<rparr>"
      and book = example_book and e = "''Network error''"
      and g' = "[ProcessPayment ''123456'' 2
                  (''Late fees for '' @ [CHR 0x27] @ ''1984'' @ [CHR 0x27])]"]
  from no_fee on_time
  have first: "pay_late_fees ?approving mem_db example_lib (example_state [borrowed_on 738880])
      ?now ''123456'' 1 (Some [])
    = ((False, ''No late fees to pay for this book.'', None), Some [])"
    by blast
  from fault late
  have "pay_late_fees ?failing mem_db example_lib (example_state [borrowed_on 738872])
      ?now ''123456'' 1 (Some [])
    = ((False, ''Payment processing error: '' @ ''Network error'', None),
       Some [ProcessPayment ''123456'' 2
               (''Late fees for '' @ [CHR 0x27] @ ''1984'' @ [CHR 0x27])])"
    by blast
  with first show ?thesis by simp
qed

text \<open>
  C9. \<^verbatim>\<open>refund_late_fee_payment\<close> rejects a transaction ID without the prefix
  \<^verbatim>\<open>txn_\<close>, an amount of at most 0 and an amount above 15, without calling the
  gateway (the gateway object is returned as it was given and the result is the same
  for every gateway). When the three validations pass it calls the refund operation
  of the gateway once: success gives success with the gateway's message, a reported
  failure gives a failure, and an exception gives a processing-error failure.
\<close>

theorem refund_validation:
  "(\<not> startswith transaction_id ''txn_'' \<longrightarrow>
      refund_late_fee_payment gw transaction_id amount payment_gateway
        = ((False, ''Invalid transaction ID.''), payment_gateway))
   \<and> (startswith transaction_id ''txn_'' \<and> amount \<le> 0 \<longrightarrow>
      refund_late_fee_payment gw transaction_id amount payment_gateway
        = ((False, ''Refund amount must be greater than 0.''), payment_gateway))
   \<and> (startswith transaction_id ''txn_'' \<and> 15 < amount \<longrightarrow>
      refund_late_fee_payment gw transaction_id amount payment_gateway
        = ((False, ''Refund amount exceeds maximum late fee.''), payment_gateway))
   \<and> (\<not> startswith transaction_id ''txn_'' \<or> amount \<le> 0 \<or> 15 < amount \<longrightarrow>
      fst (fst (refund_late_fee_payment gw transaction_id amount payment_gateway)) = False
      \<and> snd (refund_late_fee_payment gw transaction_id amount payment_gateway) = payment_gateway
      \<and> refund_late_fee_payment gw transaction_id amount payment_gateway
        = refund_late_fee_payment gw' transaction_id amount payment_gateway)
   \<and> (startswith transaction_id ''txn_'' \<and> 0 < amount \<and> amount \<le> 15 \<longrightarrow>
      (let g = (case payment_gateway of None \<Rightarrow> new_gateway gw | Some g \<Rightarrow> g);
           outcome = refund_payment gw g transaction_id amount
       in (\<forall>message. fst outcome = Inr (True, message) \<longrightarrow>
             refund_late_fee_payment gw transaction_id amount payment_gateway
               = ((True, message), Some (snd outcome)))
          \<and> (\<forall>message. fst outcome = Inr (False, message) \<longrightarrow>
             refund_late_fee_payment gw transaction_id amount payment_gateway
               = ((False, ''Refund failed: '' @ message), Some (snd outcome)))
          \<and> (\<forall>e. fst outcome = Inl (Exception e) \<longrightarrow>
             refund_late_fee_payment gw transaction_id amount payment_gateway
               = ((False, ''Refund processing error: '' @ e), Some (snd outcome)))))"
  by (auto simp: refund_late_fee_payment_def startswith_def Let_def split: prod.splits)

theorem refund_validation_witness:
  "refund_late_fee_payment (mock_gateway (Inl (Exception ''unused'')) (Inr (True, ''Refund processed'')))
     ''invalid'' (17 / 4) (Some [])
   = ((False, ''Invalid transaction ID.''), Some [])
   \<and> refund_late_fee_payment (mock_gateway (Inl (Exception ''unused'')) (Inr (True, ''Refund processed'')))
     ''txn_55555'' 0 (Some [])
   = ((False, ''Refund amount must be greater than 0.''), Some [])
   \<and> refund_late_fee_payment (mock_gateway (Inl (Exception ''unused'')) (Inr (True, ''Refund processed'')))
     ''txn_55555'' 20 (Some [])
   = ((False, ''Refund amount exceeds maximum late fee.''), Some [])
   \<and> refund_late_fee_payment (mock_gateway (Inl (Exception ''unused'')) (Inr (True, ''Refund processed'')))
     ''txn_98765'' (23 / 4) (Some [])
   = ((True, ''Refund processed''), Some [RefundPayment ''txn_98765'' (23 / 4)])
   \<and> refund_late_fee_payment (mock_gateway (Inl (Exception ''unused'')) (Inr (True, ''Refund processed'')))
     ''txn_98765'' 15 None
   = ((True, ''Refund processed''), Some [RefundPayment ''txn_98765'' 15])"
proof -
  let ?gw = "mock_gateway (Inl (Exception ''unused'')) (Inr (True, ''Refund processed''))"
  note rule = refund_validation [where gw = ?gw and gw' = ?gw]
  have bad_id: "\<not> startswith ''invalid'' ''txn_''"
    and good_id: "startswith ''txn_55555'' ''txn_''" "startswith ''txn_98765'' ''txn_''"
    by (simp_all add: startswith_def)
  have a: "refund_late_fee_payment ?gw ''invalid'' (17 / 4) (Some [])
      = ((False, ''Invalid transaction ID.''), Some [])"
    using rule [where transaction_id = "''invalid''" and amount = "17 / 4"
        and payment_gateway = "Some []"] bad_id
    by blast
  have b: "refund_late_fee_payment ?gw ''txn_55555'' 0 (Some [])
      = ((False, ''Refund amount must be greater than 0.''), Some [])"
    using rule [where transaction_id = "''txn_55555''" and amount = 0
        and payment_gateway = "Some []"] good_id
    by simp
  have c: "refund_late_fee_payment ?gw ''txn_55555'' 20 (Some [])
      = ((False, ''Refund amount exceeds maximum late fee.''), Some [])"
    using rule [where transaction_id = "''txn_55555''" and amount = 20
        and payment_gateway = "Some []"] good_id
    by simp
  have d: "refund_late_fee_payment ?gw ''txn_98765'' (23 / 4) (Some [])
      = ((True, ''Refund processed''), Some [RefundPayment ''txn_98765'' (23 / 4)])"
    using rule [where transaction_id = "''txn_98765''" and amount = "23 / 4"
        and payment_gateway = "Some []"] good_id
    by (simp add: mock_gateway_def Let_def)
  have e: "refund_late_fee_payment ?gw ''txn_98765'' 15 None
      = ((True, ''Refund processed''), Some [RefundPayment ''txn_98765'' 15])"
    using rule [where transaction_id = "''txn_98765''" and amount = 15
        and payment_gateway = None] good_id
    by (simp add: mock_gateway_def Let_def)
  from a b c d e show ?thesis by blast
qed

lemma pay_from_transaction_id:
  "(snd (snd (fst (pay_late_fees_from gw db s fee_info patron_id book_id payment_gateway)))
      \<noteq> None)
   = fst (fst (pay_late_fees_from gw db s fee_info patron_id book_id payment_gateway))"
  by (auto simp: pay_late_fees_from_def Let_def
      split: option.splits prod.splits sum.splits exn.splits if_splits)

lemma pay_from_success:
  "fst (fst (pay_late_fees_from gw db s fee_info patron_id book_id payment_gateway)) \<Longrightarrow>
   \<exists>fee book transaction_id message g'.
     fi_fee_amount fee_info = Some fee \<and> 0 < fee \<and> get_book_by_id db s book_id = Some book
     \<and> process_payment gw
           (case payment_gateway of None \<Rightarrow> new_gateway gw | Some g \<Rightarrow> g)
           patron_id fee (''Late fees for '' @ [CHR 0x27] @ bk_title book @ [CHR 0x27])
         = (Inr (True, transaction_id, message), g')
     \<and> pay_late_fees_from gw db s fee_info patron_id book_id payment_gateway
         = ((True, ''Payment successful! '' @ message, Some transaction_id), Some g')"
  by (auto simp: pay_late_fees_from_def Let_def
      split: option.splits prod.splits sum.splits exn.splits if_splits)

text \<open>
  C10. \<^verbatim>\<open>pay_late_fees\<close> returns a transaction identifier exactly when it returns
  success (so every failure path returns \<^verbatim>\<open>None\<close>; the same holds for the body of
  the function on any fee dictionary, the missing-fee path included), and on success
  the identifier is the one the gateway returned.
\<close>

theorem pay_transaction_id:
  "((snd (snd (fst (pay_late_fees gw db lib s now patron_id book_id payment_gateway))) \<noteq> None)
     = fst (fst (pay_late_fees gw db lib s now patron_id book_id payment_gateway)))
   \<and> ((snd (snd (fst (pay_late_fees_from gw db s fee_info patron_id book_id payment_gateway)))
         \<noteq> None)
     = fst (fst (pay_late_fees_from gw db s fee_info patron_id book_id payment_gateway)))
   \<and> (fst (fst (pay_late_fees gw db lib s now patron_id book_id payment_gateway)) \<longrightarrow>
        (\<exists>fee book transaction_id message g'.
           \<not> invalid_patron_id patron_id
           \<and> fi_fee_amount (calculate_late_fee_for_book db lib s now patron_id book_id)
               = Some fee
           \<and> 0 < fee \<and> get_book_by_id db s book_id = Some book
           \<and> process_payment gw
                 (case payment_gateway of None \<Rightarrow> new_gateway gw | Some g \<Rightarrow> g)
                 patron_id fee (''Late fees for '' @ [CHR 0x27] @ bk_title book @ [CHR 0x27])
               = (Inr (True, transaction_id, message), g')
           \<and> snd (snd (fst (pay_late_fees gw db lib s now patron_id book_id payment_gateway)))
               = Some transaction_id))"
proof -
  let ?info = "calculate_late_fee_for_book db lib s now patron_id book_id"
  let ?pay = "pay_late_fees gw db lib s now patron_id book_id payment_gateway"
  let ?from = "\<lambda>info. pay_late_fees_from gw db s info patron_id book_id payment_gateway"
  have unfold: "?pay = (if \<not> invalid_patron_id patron_id then ?from ?info
      else ((False, ''Invalid patron ID. Must be exactly 6 digits.'', None), payment_gateway))"
    by (simp add: pay_late_fees_def Let_def)
  have iff: "(snd (snd (fst ?pay)) \<noteq> None) = fst (fst ?pay)"
    unfolding unfold
    using pay_from_transaction_id [of gw db s ?info patron_id book_id payment_gateway]
    by simp
  have success: "\<exists>fee book transaction_id message g'.
           \<not> invalid_patron_id patron_id \<and> fi_fee_amount ?info = Some fee
           \<and> 0 < fee \<and> get_book_by_id db s book_id = Some book
           \<and> process_payment gw
                 (case payment_gateway of None \<Rightarrow> new_gateway gw | Some g \<Rightarrow> g)
                 patron_id fee (''Late fees for '' @ [CHR 0x27] @ bk_title book @ [CHR 0x27])
               = (Inr (True, transaction_id, message), g')
           \<and> snd (snd (fst ?pay)) = Some transaction_id"
    if ok: "fst (fst ?pay)"
  proof -
    from ok have valid: "\<not> invalid_patron_id patron_id"
      unfolding unfold by (simp split: if_splits)
    with ok have "fst (fst (?from ?info))"
      unfolding unfold by simp
    from pay_from_success [OF this] valid show ?thesis
      unfolding unfold by fastforce
  qed
  from iff success pay_from_transaction_id [of gw db s fee_info patron_id book_id payment_gateway]
  show ?thesis by blast
qed

text \<open>
  A gateway that approves returns \<^verbatim>\<open>txn_123456_success\<close>, which is the identifier
  of the result; a gateway that declines gives no identifier.
\<close>

theorem pay_transaction_id_witness:
  "pay_late_fees (mock_gateway (Inr (True, ''txn_123456_success'', ''Gateway approved''))
                    (Inr (True, ''Refunded'')))
     mem_db example_lib (example_state [borrowed_on 738872])
     \<lparr>dt_date = 738890, dt_time = 0\<rparr> ''123456'' 1 None
   = ((True, ''Payment successful! Gateway approved'', Some ''txn_123456_success''),
      Some [ProcessPayment ''123456'' 2 (''Late fees for '' @ [CHR 0x27] @ ''1984'' @ [CHR 0x27])])
   \<and> pay_late_fees (mock_gateway (Inr (False, [], ''Card declined'')) (Inr (True, ''Refunded'')))
     mem_db example_lib (example_state [borrowed_on 738872])
     \<lparr>dt_date = 738890, dt_time = 0\<rparr> ''123456'' 1 None
   = ((False, ''Payment failed: Card declined'', None),
      Some [ProcessPayment ''123456'' 2 (''Late fees for '' @ [CHR 0x27] @ ''1984'' @ [CHR 0x27])])
   \<and> (\<exists>fee transaction_id message g'.
         process_payment (mock_gateway (Inr (True, ''txn_123456_success'', ''Gateway approved''))
                            (Inr (True, ''Refunded'')))
           [] ''123456'' fee (''Late fees for '' @ [CHR 0x27] @ ''1984'' @ [CHR 0x27])
         = (Inr (True, transaction_id, message), g')
         \<and> transaction_id = ''txn_123456_success'')"
proof -
  let ?now = "\<lparr>dt_date = 738890, dt_time = 0\<rparr>"
  let ?s = "example_state [borrowed_on 738872]"
  let ?approving = "mock_gateway (Inr (True, ''txn_123456_success'', ''Gateway approved''))
                      (Inr (True, ''Refunded''))"
  let ?declining = "mock_gateway (Inr (False, [], ''Card declined'')) (Inr (True, ''Refunded''))"
  let ?paid = "pay_late_fees ?approving mem_db example_lib ?s ?now ''123456'' 1 None"
  let ?declined = "pay_late_fees ?declining mem_db example_lib ?s ?now ''123456'' 1 None"
  have valid: "\<not> invalid_patron_id ''123456''"
    using valid_patron_example by (simp add:)
  note eval = pay_late_fees_def pay_late_fees_from_def valid example_fee_info_late
    example_book_found mock_gateway_def example_book_def
  have paid: "?paid
      = ((True, ''Payment successful! Gateway approved'', Some ''txn_123456_success''),
         Some [ProcessPayment ''123456'' 2
                 (''Late fees for '' @ [CHR 0x27] @ ''1984'' @ [CHR 0x27])])"
    by (simp add: eval)
  have declined: "?declined
      = ((False, ''Payment failed: Card declined'', None),
         Some [ProcessPayment ''123456'' 2
                 (''Late fees for '' @ [CHR 0x27] @ ''1984'' @ [CHR 0x27])])"
    by (simp add: eval)
  note at_paid = pay_transaction_id [where gw = ?approving and db = mem_db
      and lib = example_lib and s = ?s and now = ?now and patron_id = "''123456''"
      and book_id = 1 and payment_gateway = None
      and fee_info = "\<lparr>fi_fee_amount = None, fi_days_overdue = None, fi_due_date = None,
                        fi_status = None\<rparr>"]
  have "fst (fst ?paid)"
    by (simp add: paid)
  with at_paid obtain fee book transaction_id message g'
    where book: "get_book_by_id mem_db ?s 1 = Some book"
      and call: "process_payment ?approving
                   (case None of None \<Rightarrow> new_gateway ?approving | Some g \<Rightarrow> g)
                   ''123456'' fee (''Late fees for '' @ [CHR 0x27] @ bk_title book @ [CHR 0x27])
                 = (Inr (True, transaction_id, message), g')"
      and txn: "snd (snd (fst ?paid)) = Some transaction_id"
    by blast
  from book have "book = example_book"
    by (simp add: example_book_found)
  then have title: "bk_title book = ''1984''"
    by (simp add: example_book_def)
  have fresh: "new_gateway ?approving = []"
    by (simp add: mock_gateway_def)
  from txn have "transaction_id = ''txn_123456_success''"
    by (simp add: paid)
  with call title fresh
  have "\<exists>fee transaction_id message g'.
         process_payment ?approving [] ''123456'' fee
           (''Late fees for '' @ [CHR 0x27] @ ''1984'' @ [CHR 0x27])
         = (Inr (True, transaction_id, message), g')
         \<and> transaction_id = ''txn_123456_success''"
    by (simp only: option.case) blast
  with paid declined show ?thesis by blast
qed

end
